theory Spec2Isabelle
  imports Main
begin

section \<open>Python values\<close>

text \<open>
  The program reads a JSON document with \<^verbatim>\<open>json.load\<close> and passes parts of it around as
  \<^verbatim>\<open>Dict[str, Any]\<close>. A value is therefore any JSON value as Python holds it. A float is
  kept as sign, mantissa and binary exponent, with the two infinities and NaN that
  \<^verbatim>\<open>json.load\<close> accepts. \<open>PFunc\<close> is a reference to a function of the program (the
  progress hook stored in the option set); no JSON document contains one.

  Strings are lists of 8-bit characters. A dict is an association list in insertion
  order; a lookup returns the first entry of a key.
\<close>

datatype pyfloat = Finite bool nat int | Infinite bool | NaN

datatype pyval =
    PNone
  | PBool bool
  | PInt int
  | PFloat pyfloat
  | PStr string
  | PList "pyval list"
  | PDict "(string \<times> pyval) list"
  | PFunc string

type_synonym pydict = "(string \<times> pyval) list"

text \<open>The exceptions the program can meet. \<open>EngineError\<close> is any exception (a subclass of
  \<^verbatim>\<open>Exception\<close>) raised by the retrieval engine.\<close>

datatype pyexc =
    ValueError
  | TypeError
  | AttributeError
  | OSError
  | EngineError string

text \<open>Python's truth value of an object (\<^verbatim>\<open>bool(v)\<close>, used by \<^verbatim>\<open>or\<close>, \<^verbatim>\<open>not\<close> and \<^verbatim>\<open>if\<close>).\<close>

fun truthy :: "pyval \<Rightarrow> bool" where
  "truthy PNone = False"
| "truthy (PBool b) = b"
| "truthy (PInt i) = (i \<noteq> 0)"
| "truthy (PFloat (Finite s m e)) = (m \<noteq> 0)"
| "truthy (PFloat (Infinite s)) = True"
| "truthy (PFloat NaN) = True"
| "truthy (PStr s) = (s \<noteq> [])"
| "truthy (PList xs) = (xs \<noteq> [])"
| "truthy (PDict d) = (d \<noteq> [])"
| "truthy (PFunc f) = True"

text \<open>\<^verbatim>\<open>a or b\<close>\<close>

definition py_or :: "pyval \<Rightarrow> pyval \<Rightarrow> pyval" where
  "py_or a b = (if truthy a then a else b)"

text \<open>\<^verbatim>\<open>k in d\<close>, \<^verbatim>\<open>d.get(k)\<close>, \<^verbatim>\<open>d.get(k, default)\<close> and \<^verbatim>\<open>d[k] = v\<close>.\<close>

definition dict_get :: "pydict \<Rightarrow> string \<Rightarrow> pyval option" where
  "dict_get d k = map_of d k"

definition get1 :: "pydict \<Rightarrow> string \<Rightarrow> pyval" where
  "get1 d k = (case dict_get d k of None \<Rightarrow> PNone | Some v \<Rightarrow> v)"

definition get2 :: "pydict \<Rightarrow> string \<Rightarrow> pyval \<Rightarrow> pyval" where
  "get2 d k dflt = (case dict_get d k of None \<Rightarrow> dflt | Some v \<Rightarrow> v)"

fun dict_set :: "pydict \<Rightarrow> string \<Rightarrow> pyval \<Rightarrow> pydict" where
  "dict_set [] k v = [(k, v)]"
| "dict_set ((k', v') # d) k v =
     (if k' = k then (k, v) # d else (k', v') # dict_set d k v)"

text \<open>\<^verbatim>\<open>str(n)\<close> for an integer: decimal digits, with a minus sign when negative.\<close>

fun str_nat :: "nat \<Rightarrow> string" where
  "str_nat n =
     (if n < 10 then [''0123456789'' ! n]
      else str_nat (n div 10) @ [''0123456789'' ! (n mod 10)])"

declare str_nat.simps [simp del]

definition str_int :: "int \<Rightarrow> string" where
  "str_int i = (if i < 0 then CHR ''-'' # str_nat (nat (- i)) else str_nat (nat i))"

text \<open>\<^verbatim>\<open>s.lower()\<close>: the letters A to Z are replaced, every other character is kept.
  (Python lower-cases beyond ASCII as well; the program only compares the result with
  \<^verbatim>\<open>"audio"\<close>.)\<close>

definition char_lower :: "char \<Rightarrow> char" where
  "char_lower c =
     (case map_of (zip ''ABCDEFGHIJKLMNOPQRSTUVWXYZ'' ''abcdefghijklmnopqrstuvwxyz'') c of
        None \<Rightarrow> c | Some l \<Rightarrow> l)"

definition py_lower :: "string \<Rightarrow> string" where
  "py_lower s = map char_lower s"



section \<open>Collaborators\<close>

text \<open>
  What the program calls and does not define, acting on a state \<open>'w\<close> of the outside
  world (file system, network):
  \<^item> \<open>str_repr\<close>: the text \<^verbatim>\<open>str(v)\<close> of a float, list, dict or function (for these
    \<^verbatim>\<open>str\<close> is \<^verbatim>\<open>repr\<close>);
  \<^item> \<open>make_out_dir\<close>: \<^verbatim>\<open>Path(p).expanduser().resolve()\<close> followed by
    \<^verbatim>\<open>mkdir(parents=True, exist_ok=True)\<close>: the resolved directory, or the exception raised;
  \<^item> \<open>join_path\<close>: \<^verbatim>\<open>str(out_dir / name)\<close>;
  \<^item> \<open>ydl_download\<close>: \<^verbatim>\<open>with yt_dlp.YoutubeDL(opts) as ydl: ydl.download([url])\<close>: returns
    (\<open>None\<close>) or raises.
\<close>

record 'w host =
  str_repr :: "pyval \<Rightarrow> string"
  make_out_dir :: "'w \<Rightarrow> string \<Rightarrow> (pyexc + string) \<times> 'w"
  join_path :: "string \<Rightarrow> string \<Rightarrow> string"
  ydl_download :: "'w \<Rightarrow> pydict \<Rightarrow> pyval \<Rightarrow> pyexc option \<times> 'w"

text \<open>\<^verbatim>\<open>str(v)\<close>, also what an f-string field \<^verbatim>\<open>{v}\<close> prints.\<close>

definition py_str :: "'w host \<Rightarrow> pyval \<Rightarrow> string" where
  "py_str h v =
     (case v of
        PNone \<Rightarrow> ''None''
      | PBool b \<Rightarrow> (if b then ''True'' else ''False'')
      | PInt i \<Rightarrow> str_int i
      | PStr s \<Rightarrow> s
      | _ \<Rightarrow> str_repr h v)"

section \<open>\<^verbatim>\<open>_progress_hook\<close>\<close>


section \<open>\<^verbatim>\<open>build_ydl_opts\<close>\<close>

text \<open>The local variables of \<^verbatim>\<open>build_ydl_opts\<close> that merge the item over the global
  configuration, each under its name in the source.\<close>

definition filename_template :: "pydict \<Rightarrow> pydict \<Rightarrow> pyval" where
  "filename_template item cfg =
     py_or (py_or (get1 item ''filename_template'') (get1 cfg ''filename_template''))
           (PStr ''%(title)s.%(ext)s'')"

definition proxy :: "pydict \<Rightarrow> pydict \<Rightarrow> pyval" where
  "proxy item cfg = py_or (get1 item ''proxy'') (get1 cfg ''proxy'')"

definition ffmpeg_location :: "pydict \<Rightarrow> pydict \<Rightarrow> pyval" where
  "ffmpeg_location item cfg = py_or (get1 item ''ffmpeg_location'') (get1 cfg ''ffmpeg_location'')"

definition cookiefile :: "pydict \<Rightarrow> pydict \<Rightarrow> pyval" where
  "cookiefile item cfg = py_or (get1 item ''cookies'') (get1 cfg ''cookies'')"

definition concurrent_fragments :: "pydict \<Rightarrow> pydict \<Rightarrow> pyval" where
  "concurrent_fragments item cfg =
     get2 item ''concurrent_fragments'' (get2 cfg ''concurrent_fragments'' (PInt 5))"

text \<open>\<^verbatim>\<open>(item.get("type") or "video").lower()\<close>: \<^verbatim>\<open>.lower()\<close> exists on strings only.\<close>

definition requested_type :: "pydict \<Rightarrow> pyexc + string" where
  "requested_type item =
     (case py_or (get1 item ''type'') (PStr ''video'') of
        PStr s \<Rightarrow> Inr (py_lower s)
      | _ \<Rightarrow> Inl AttributeError)"

definition convert_to_audio :: "pydict \<Rightarrow> pydict \<Rightarrow> pyval" where
  "convert_to_audio item cfg =
     get2 item ''convert_to_audio'' (get2 cfg ''convert_to_audio'' (PBool False))"

definition video_format :: "pydict \<Rightarrow> pydict \<Rightarrow> pyval" where
  "video_format item cfg = get2 item ''video_format'' (get2 cfg ''video_format'' (PStr ''mp4''))"

definition quality :: "pydict \<Rightarrow> pydict \<Rightarrow> pyval" where
  "quality item cfg = get2 item ''quality'' (get2 cfg ''quality'' (PStr ''best''))"

definition audio_format :: "pydict \<Rightarrow> pydict \<Rightarrow> pyval" where
  "audio_format item cfg = get2 item ''audio_format'' (get2 cfg ''audio_format'' (PStr ''mp3''))"

definition audio_bitrate :: "'w host \<Rightarrow> pydict \<Rightarrow> pydict \<Rightarrow> pyval" where
  "audio_bitrate h item cfg =
     PStr (py_str h (get2 item ''audio_bitrate'' (get2 cfg ''audio_bitrate'' (PInt 192))))"

definition rate_limit :: "pydict \<Rightarrow> pydict \<Rightarrow> pyval" where
  "rate_limit item cfg = get2 item ''rate_limit'' (get1 cfg ''rate_limit'')"

definition remove_sponsor_segments :: "pydict \<Rightarrow> pydict \<Rightarrow> pyval" where
  "remove_sponsor_segments item cfg =
     get2 item ''remove_sponsor_segments'' (get2 cfg ''remove_sponsor_segments'' (PBool False))"

text \<open>The post-processing step both paths use.\<close>

definition extract_audio :: "'w host \<Rightarrow> pydict \<Rightarrow> pydict \<Rightarrow> pyval" where
  "extract_audio h item cfg =
     PDict [(''key'', PStr ''FFmpegExtractAudio''),
            (''preferredcodec'', audio_format item cfg),
            (''preferredquality'', audio_bitrate h item cfg)]"

text \<open>Lines 47 to 61: the defaults and the three optional entries.\<close>

definition defaults :: "string \<Rightarrow> pydict \<Rightarrow> pydict \<Rightarrow> pydict" where
  "defaults outtmpl item cfg =
     (let ydl_opts =
            [(''outtmpl'', PStr outtmpl),
             (''noplaylist'', PBool True),
             (''quiet'', PBool False),
             (''progress_hooks'', PList [PFunc ''_progress_hook'']),
             (''retries'', PInt 10),
             (''concurrent_fragment_downloads'', concurrent_fragments item cfg)];
          ydl_opts = (if truthy (proxy item cfg)
                      then dict_set ydl_opts ''proxy'' (proxy item cfg) else ydl_opts);
          ydl_opts = (if truthy (ffmpeg_location item cfg)
                      then dict_set ydl_opts ''ffmpeg_location'' (ffmpeg_location item cfg)
                      else ydl_opts);
          ydl_opts = (if truthy (cookiefile item cfg)
                      then dict_set ydl_opts ''cookiefile'' (cookiefile item cfg) else ydl_opts)
      in ydl_opts)"

text \<open>Lines 74 to 103: format selection. In the video path \<^verbatim>\<open>setdefault\<close> returns the
  list under \<^verbatim>\<open>postprocessors\<close>, entering an empty one when the key is missing, and the
  step is appended to that list. Only this function writes the entry, and it writes a
  list; the last case is never reached from \<open>build_ydl_opts\<close>.\<close>

definition format_selection ::
  "'w host \<Rightarrow> string \<Rightarrow> pydict \<Rightarrow> pydict \<Rightarrow> pydict \<Rightarrow> pydict" where
  "format_selection h rtype item cfg ydl_opts =
     (if rtype = ''audio'' then
        (let ydl_opts = dict_set ydl_opts ''format'' (PStr ''bestaudio/best'');
             ydl_opts = dict_set ydl_opts ''postprocessors'' (PList [extract_audio h item cfg])
         in ydl_opts)
      else
        (let ydl_opts = (if quality item cfg = PStr ''best''
                         then dict_set ydl_opts ''format'' (PStr ''bv*+ba/b'')
                         else dict_set ydl_opts ''format'' (quality item cfg));
             ydl_opts = dict_set ydl_opts ''merge_output_format'' (video_format item cfg)
         in if truthy (convert_to_audio item cfg) then
              (case get2 ydl_opts ''postprocessors'' (PList []) of
                 PList pp \<Rightarrow>
                   dict_set ydl_opts ''postprocessors'' (PList (pp @ [extract_audio h item cfg]))
               | _ \<Rightarrow> ydl_opts)
            else ydl_opts))"

text \<open>Lines 106 and 107: throttling.\<close>

definition throttling :: "pydict \<Rightarrow> pydict \<Rightarrow> pydict \<Rightarrow> pydict" where
  "throttling item cfg ydl_opts =
     (if dict_get cfg ''rate_limit'' \<noteq> None \<or> dict_get item ''rate_limit'' \<noteq> None
      then dict_set ydl_opts ''ratelimit'' (rate_limit item cfg)
      else ydl_opts)"

text \<open>Lines 110 to 112: SponsorBlock.\<close>

definition sponsorblock :: "pydict \<Rightarrow> pydict \<Rightarrow> pydict \<Rightarrow> pydict" where
  "sponsorblock item cfg ydl_opts =
     (if truthy (remove_sponsor_segments item cfg)
      then dict_set ydl_opts ''sponsorblock_mark''
             (PList [PStr ''sponsor'', PStr ''intro'', PStr ''outro'',
                     PStr ''interaction'', PStr ''selfpromo''])
      else ydl_opts)"

text \<open>
  The whole function. It can raise in four places, in this order: \<^verbatim>\<open>Path(...)\<close> of an
  \<^verbatim>\<open>output_dir\<close> that is no string (line 37), the file system (lines 37 and 38),
  \<^verbatim>\<open>out_dir / filename_template\<close> with a template that is no string (line 40), and
  \<^verbatim>\<open>.lower()\<close> of a type that is no string (line 64). Nothing between them has an effect.
\<close>

definition build_ydl_opts ::
  "'w host \<Rightarrow> 'w \<Rightarrow> pydict \<Rightarrow> pydict \<Rightarrow> (pyexc + pydict) \<times> 'w" where
  "build_ydl_opts h w item cfg =
     (case get2 cfg ''output_dir'' (PStr ''downloads'') of
        PStr p \<Rightarrow>
          (case make_out_dir h w p of
             (Inl e, w') \<Rightarrow> (Inl e, w')
           | (Inr out_dir, w') \<Rightarrow>
               (case filename_template item cfg of
                  PStr t \<Rightarrow>
                    (case requested_type item of
                       Inl e \<Rightarrow> (Inl e, w')
                     | Inr rtype \<Rightarrow>
                         (Inr (sponsorblock item cfg
                                (throttling item cfg
                                  (format_selection h rtype item cfg
                                    (defaults (join_path h out_dir t) item cfg)))), w'))
                | _ \<Rightarrow> (Inl TypeError, w')))
      | _ \<Rightarrow> (Inl TypeError, w))"

section \<open>\<^verbatim>\<open>download_item\<close> and \<^verbatim>\<open>main\<close>\<close>

text \<open>The log records of \<^verbatim>\<open>download_item\<close> and \<^verbatim>\<open>main\<close>, by content: the
  \<^verbatim>\<open>[idx/len] processing\<close> line, \<^verbatim>\<open>Start: url\<close>, \<^verbatim>\<open>Done.\<close>, the error record
  \<^verbatim>\<open>Failed item idx: e\<close>, \<^verbatim>\<open>All tasks finished.\<close>, and the three printed messages.\<close>

datatype event =
    Processing nat nat
  | Start pyval
  | Done
  | Failed nat pyexc
  | AllFinished
  | PrintUsage
  | PrintNotFound
  | PrintNoItems

text \<open>\<^verbatim>\<open>download_item\<close>: the exception raised (if any), the records logged, the world
  after. \<^verbatim>\<open>item.get\<close> exists on a dict only.\<close>

definition download_item ::
  "'w host \<Rightarrow> 'w \<Rightarrow> pyval \<Rightarrow> pydict \<Rightarrow> pyexc option \<times> event list \<times> 'w" where
  "download_item h w item cfg =
     (case item of
        PDict it \<Rightarrow>
          (let url = get1 it ''url'' in
           if \<not> truthy url then (Some ValueError, [], w)
           else
             (case build_ydl_opts h w it cfg of
                (Inl e, w') \<Rightarrow> (Some e, [], w')
              | (Inr ydl_opts, w') \<Rightarrow>
                  (case ydl_download h w' ydl_opts url of
                     (Some e, w'') \<Rightarrow> (Some e, [Start url], w'')
                   | (None, w'') \<Rightarrow> (None, [Start url, Done], w''))))
      | _ \<Rightarrow> (Some AttributeError, [], w))"

text \<open>The loop of \<^verbatim>\<open>main\<close> (lines 143 to 151) from item number \<open>idx\<close> on, \<open>n\<close> being
  \<^verbatim>\<open>len(items)\<close>. The second component is the value returned from inside the loop, if
  the loop returns.\<close>

fun main_loop ::
  "'w host \<Rightarrow> pydict \<Rightarrow> nat \<Rightarrow> nat \<Rightarrow> pyval list \<Rightarrow> 'w \<Rightarrow> event list \<times> int option \<times> 'w" where
  "main_loop h cfg n idx [] w = ([], None, w)"
| "main_loop h cfg n idx (item # rest) w =
     (case download_item h w item cfg of
        (None, evs, w') \<Rightarrow>
          (case main_loop h cfg n (Suc idx) rest w' of
             (evs', r, w'') \<Rightarrow> (Processing idx n # evs @ evs', r, w''))
      | (Some e, evs, w') \<Rightarrow>
          (if truthy (get2 cfg ''stop_on_error'' (PBool False))
           then (Processing idx n # evs @ [Failed idx e], Some 1, w')
           else
             (case main_loop h cfg n (Suc idx) rest w' of
                (evs', r, w'') \<Rightarrow> (Processing idx n # evs @ Failed idx e # evs', r, w''))))"

text \<open>What \<^verbatim>\<open>enumerate(items, 1)\<close> iterates over: the elements of a list, the characters
  of a string, the keys of a dict; any other value is not iterable.\<close>

definition iterate :: "pyval \<Rightarrow> pyexc + pyval list" where
  "iterate v =
     (case v of
        PList xs \<Rightarrow> Inr xs
      | PStr s \<Rightarrow> Inr (map (\<lambda>c. PStr [c]) s)
      | PDict d \<Rightarrow> Inr (map (\<lambda>kv. PStr (fst kv)) d)
      | _ \<Rightarrow> Inl TypeError)"

text \<open>How the program was started: without an argument, with a path that does not
  exist, with a file \<^verbatim>\<open>json.load\<close> rejects, or with a parsed document.\<close>

datatype launch =
    NoArgument
  | ConfigNotFound
  | LoadRaises pyexc
  | Loaded pyval

text \<open>\<^verbatim>\<open>main\<close>: the records logged and printed, the exit code returned or the exception
  that escapes, the world after.\<close>

definition main :: "'w host \<Rightarrow> 'w \<Rightarrow> launch \<Rightarrow> event list \<times> (pyexc + int) \<times> 'w" where
  "main h w l =
     (case l of
        NoArgument \<Rightarrow> ([PrintUsage], Inr 2, w)
      | ConfigNotFound \<Rightarrow> ([PrintNotFound], Inr 2, w)
      | LoadRaises e \<Rightarrow> ([], Inl e, w)
      | Loaded (PDict cfg) \<Rightarrow>
          (let items = py_or (get1 cfg ''items'') (PList []) in
           if \<not> truthy items then ([PrintNoItems], Inr 2, w)
           else
             (case iterate items of
                Inl e \<Rightarrow> ([], Inl e, w)
              | Inr xs \<Rightarrow>
                  (case main_loop h cfg (length xs) 1 xs w of
                     (evs, Some r, w') \<Rightarrow> (evs, Inr r, w')
                   | (evs, None, w') \<Rightarrow> (evs @ [AllFinished], Inr 0, w'))))
      | Loaded _ \<Rightarrow> ([], Inl AttributeError, w))"

text \<open>A host for running the definitions on concrete inputs: the directory is used as
  given, paths are joined with a slash, and a download fails exactly for the URL
  \<^verbatim>\<open>bad\<close>. Its world is the number of downloads attempted.\<close>

definition test_host :: "nat host" where
  "test_host =
     \<lparr> str_repr = (\<lambda>v. ''?''),
       make_out_dir = (\<lambda>w p. (Inr p, w)),
       join_path = (\<lambda>a b. a @ ''/'' @ b),
       ydl_download = (\<lambda>w opts url.
          (if url = PStr ''bad'' then Some (EngineError ''unavailable'') else None, Suc w)) \<rparr>"



definition batch_cfg :: pydict where
  "batch_cfg =
     [(''output_dir'', PStr ''out''),
      (''items'', PList [PDict [(''url'', PStr ''bad'')], PDict [(''url'', PStr ''b'')]])]"

definition abort_cfg :: pydict where
  "abort_cfg = (''stop_on_error'', PBool True) # batch_cfg"

definition abort_late_cfg :: pydict where
  "abort_late_cfg =
     [(''stop_on_error'', PBool True),
      (''items'', PList [PDict [(''url'', PStr ''a'')], PDict [(''url'', PStr ''bad'')],
                         PDict [(''url'', PStr ''b'')]])]"

section \<open>Vocabulary of the specification\<close>

text \<open>The job outcomes among the log records: \<open>Done\<close> is a success, \<open>Failed\<close> a failure
  record carrying the item's index and the error.\<close>

fun is_outcome :: "event \<Rightarrow> bool" where
  "is_outcome Done = True"
| "is_outcome (Failed idx e) = True"
| "is_outcome ev = False"

text \<open>The merge as the specification states it (section 4.1), to be compared with the
  lookups of the code: a value is present in a scope when the key is there and the value
  is not null; the item's value if present, else the global one if present, else the
  builtin default.\<close>

definition spec_present :: "pydict \<Rightarrow> string \<Rightarrow> pyval option" where
  "spec_present d k = (case dict_get d k of Some PNone \<Rightarrow> None | r \<Rightarrow> r)"

definition spec_merge :: "pydict \<Rightarrow> pydict \<Rightarrow> string \<Rightarrow> pyval \<Rightarrow> pyval" where
  "spec_merge item cfg k dflt =
     (case spec_present item k of
        Some v \<Rightarrow> v
      | None \<Rightarrow> (case spec_present cfg k of Some v \<Rightarrow> v | None \<Rightarrow> dflt))"

text \<open>The two situations in which the code's lookups part from it. \<open>reads_null\<close>: the
  lookup by key presence, \<^verbatim>\<open>item.get(k, cfg.get(k, default))\<close>, lands on an explicit null.
  \<open>holds_falsy\<close>: a scope holds under the key a value that is not null and yet false
  for \<^verbatim>\<open>or\<close> (an empty string, 0, false, an empty list or object).\<close>

definition reads_null :: "pydict \<Rightarrow> pydict \<Rightarrow> string \<Rightarrow> bool" where
  "reads_null item cfg k =
     (dict_get item k = Some PNone \<or> (dict_get item k = None \<and> dict_get cfg k = Some PNone))"


text \<open>The items of a list all download, one after the other, starting in world \<open>w\<close>:
  the world they leave, or \<open>None\<close> when one of them fails.\<close>

fun run_all :: "'w host \<Rightarrow> pydict \<Rightarrow> pyval list \<Rightarrow> 'w \<Rightarrow> 'w option" where
  "run_all h cfg [] w = Some w"
| "run_all h cfg (x # xs) w =
     (case download_item h w x cfg of
        (None, evs, w') \<Rightarrow> run_all h cfg xs w'
      | (Some e, evs, w') \<Rightarrow> None)"

text \<open>A value that is a string, or else false for \<^verbatim>\<open>or\<close>; and the string such a value
  stands for after \<^verbatim>\<open>v or ""\<close>.\<close>

definition text_or_falsy :: "pyval \<Rightarrow> bool" where
  "text_or_falsy v = (case v of PStr s \<Rightarrow> True | _ \<Rightarrow> \<not> truthy v)"


section \<open>Lookups in the option set\<close>

lemma dict_get_set:
  "dict_get (dict_set d k v) k' = (if k' = k then Some v else dict_get d k')"
  by (induction d) (auto simp: dict_get_def)

lemma dict_get_defaults_fixed:
  "dict_get (defaults outtmpl item cfg) ''noplaylist'' = Some (PBool True)"
  "dict_get (defaults outtmpl item cfg) ''retries'' = Some (PInt 10)"
  by (simp_all add: defaults_def Let_def dict_get_set) (simp_all add: dict_get_def)

lemma dict_get_defaults_other:
  "k \<notin> {''outtmpl'', ''noplaylist'', ''quiet'', ''progress_hooks'', ''retries'',
         ''concurrent_fragment_downloads'', ''proxy'', ''ffmpeg_location'', ''cookiefile''}
   \<Longrightarrow> dict_get (defaults outtmpl item cfg) k = None"
  by (simp add: defaults_def Let_def dict_get_set) (simp add: dict_get_def)

lemma dict_get_format_selection_other:
  "k \<notin> {''format'', ''postprocessors'', ''merge_output_format''}
   \<Longrightarrow> dict_get (format_selection h rtype item cfg d) k = dict_get d k"
  by (auto simp add: format_selection_def Let_def dict_get_set get2_def
           split: pyval.splits option.splits)

lemma format_selection_audio:
  "dict_get (format_selection h ''audio'' item cfg d) k =
     (if k = ''postprocessors'' then Some (PList [extract_audio h item cfg])
      else if k = ''format'' then Some (PStr ''bestaudio/best'')
      else dict_get d k)"
  by (simp add: format_selection_def Let_def dict_get_set)

lemma format_selection_video_format:
  "rtype \<noteq> ''audio'' \<Longrightarrow>
   dict_get (format_selection h rtype item cfg d) ''format'' =
     Some (if quality item cfg = PStr ''best'' then PStr ''bv*+ba/b'' else quality item cfg)"
  by (auto simp add: format_selection_def Let_def dict_get_set get2_def
           split: pyval.splits option.splits)

lemma format_selection_video_merge:
  "rtype \<noteq> ''audio'' \<Longrightarrow>
   dict_get (format_selection h rtype item cfg d) ''merge_output_format'' =
     Some (video_format item cfg)"
  by (auto simp add: format_selection_def Let_def dict_get_set get2_def
           split: pyval.splits option.splits)

text \<open>The option set \<open>format_selection\<close> receives has no \<^verbatim>\<open>postprocessors\<close> yet, so in
  the video path \<^verbatim>\<open>setdefault\<close> enters the empty list and the step becomes its only
  element.\<close>

lemma format_selection_video_convert:
  "rtype \<noteq> ''audio'' \<Longrightarrow> truthy (convert_to_audio item cfg) \<Longrightarrow>
   dict_get (format_selection h rtype item cfg (defaults outtmpl item cfg)) ''postprocessors'' =
     Some (PList [extract_audio h item cfg])"
  by (simp add: format_selection_def Let_def get2_def dict_get_set dict_get_defaults_other)

lemma dict_get_throttling:
  "dict_get (throttling item cfg d) k =
     (if k = ''ratelimit''
         \<and> (dict_get cfg ''rate_limit'' \<noteq> None \<or> dict_get item ''rate_limit'' \<noteq> None)
      then Some (rate_limit item cfg)
      else dict_get d k)"
  by (auto simp add: throttling_def dict_get_set)

lemma dict_get_sponsorblock:
  "dict_get (sponsorblock item cfg d) k =
     (if k = ''sponsorblock_mark'' \<and> truthy (remove_sponsor_segments item cfg)
      then Some (PList [PStr ''sponsor'', PStr ''intro'', PStr ''outro'',
                        PStr ''interaction'', PStr ''selfpromo''])
      else dict_get d k)"
  by (simp add: sponsorblock_def dict_get_set)

text \<open>When \<open>build_ydl_opts\<close> returns an option set, and what it is then.\<close>

lemma build_ydl_opts_Inr:
  assumes "build_ydl_opts h w item cfg = (Inr opts, w')"
  obtains p out_dir t rtype where
    "get2 cfg ''output_dir'' (PStr ''downloads'') = PStr p"
    "make_out_dir h w p = (Inr out_dir, w')"
    "filename_template item cfg = PStr t"
    "requested_type item = Inr rtype"
    "opts = sponsorblock item cfg (throttling item cfg
              (format_selection h rtype item cfg (defaults (join_path h out_dir t) item cfg)))"
  using assms unfolding build_ydl_opts_def
  by (auto split: pyval.splits prod.splits sum.splits)

lemma build_ydl_opts_ok:
  assumes "get2 cfg ''output_dir'' (PStr ''downloads'') = PStr p"
    "make_out_dir h w p = (Inr out_dir, w')"
    "filename_template item cfg = PStr t"
    "requested_type item = Inr rtype"
  shows "build_ydl_opts h w item cfg =
     (Inr (sponsorblock item cfg (throttling item cfg
              (format_selection h rtype item cfg (defaults (join_path h out_dir t) item cfg)))),
      w')"
  using assms by (simp add: build_ydl_opts_def)

lemma str_int_192: "str_int 192 = ''192''"
  by (simp add: str_int_def str_nat.simps)

lemma requested_type_cases:
  "requested_type item =
     (case get1 item ''type'' of
        PStr s \<Rightarrow> Inr (if s = [] then ''video'' else py_lower s)
      | v \<Rightarrow> if truthy v then Inl AttributeError else Inr ''video'')"
  by (simp add: requested_type_def py_or_def py_lower_def char_lower_def
           split: pyval.splits pyfloat.splits)

section \<open>The code's lookups against the specification's merge\<close>

lemma get2_merge:
  "\<not> reads_null item cfg k \<Longrightarrow> get2 item k (get2 cfg k dflt) = spec_merge item cfg k dflt"
  by (auto simp: reads_null_def get2_def spec_merge_def spec_present_def
           split: option.splits pyval.splits)




lemma flag_merge:
  "\<not> (dict_get item k = Some PNone \<and> truthy (get1 cfg k)) \<Longrightarrow>
   truthy (get2 item k (get2 cfg k (PBool False))) = truthy (spec_merge item cfg k (PBool False))"
  by (auto simp: get2_def get1_def spec_merge_def spec_present_def
           split: option.splits pyval.splits)


section \<open>The batch loop\<close>

lemma download_item_outcomes:
  "download_item h w x cfg = (r, evs, w') \<Longrightarrow>
   filter is_outcome evs = (if r = None then [Done] else [])"
  unfolding download_item_def
  by (auto simp: Let_def split: pyval.splits prod.splits sum.splits option.splits if_splits)

lemma download_item_no_url:
  "\<not> truthy (get1 it ''url'') \<Longrightarrow>
   download_item h w (PDict it) cfg = (Some ValueError, [], w)"
  by (simp add: download_item_def)


lemma main_loop_abort:
  assumes "truthy (get2 cfg ''stop_on_error'' (PBool False))"
    and "download_item h w A cfg = (Some e, evA, w1)"
  shows "main_loop h cfg n idx (A # rest) w
           = (Processing idx n # evA @ [Failed idx e], Some 1, w1)"
  using assms by simp

lemma main_Loaded_list:
  assumes "get1 cfg ''items'' = PList xs" and "xs \<noteq> []"
  shows "main h w (Loaded (PDict cfg)) =
     (case main_loop h cfg (length xs) 1 xs w of
        (evs, Some r, w') \<Rightarrow> (evs, Inr r, w')
      | (evs, None, w') \<Rightarrow> (evs @ [AllFinished], Inr 0, w'))"
  using assms by (simp add: main_def py_or_def iterate_def)

lemma run_all_loop:
  "run_all h cfg pre w = Some w0 \<Longrightarrow>
   \<exists>evs. main_loop h cfg n idx pre w = (evs, None, w0)
         \<and> filter is_outcome evs = replicate (length pre) Done"
proof (induction pre arbitrary: idx w)
  case Nil
  then show ?case by simp
next
  case (Cons x xs)
  obtain r evs w1 where x: "download_item h w x cfg = (r, evs, w1)"
    by (cases "download_item h w x cfg") auto
  with Cons.prems have ok: "r = None" and rest: "run_all h cfg xs w1 = Some w0"
    by (auto split: option.splits)
  from Cons.IH [OF rest, of "Suc idx"] obtain evs' where
    loop: "main_loop h cfg n (Suc idx) xs w1 = (evs', None, w0)"
    and outs: "filter is_outcome evs' = replicate (length xs) Done"
    by blast
  from download_item_outcomes [OF x] ok have "filter is_outcome evs = [Done]"
    by simp
  with x ok loop outs show ?case by simp
qed

lemma main_loop_append:
  "main_loop h cfg n idx pre w = (evs, None, w0) \<Longrightarrow>
   main_loop h cfg n idx (pre @ ys) w =
     (case main_loop h cfg n (idx + length pre) ys w0 of
        (evs', r, w') \<Rightarrow> (evs @ evs', r, w'))"
proof (induction pre arbitrary: idx w evs)
  case Nil
  then show ?case by (simp split: prod.splits)
next
  case (Cons x xs)
  obtain r ev w1 where x: "download_item h w x cfg = (r, ev, w1)"
    by (cases "download_item h w x cfg") auto
  obtain evs1 r1 w2 where rest: "main_loop h cfg n (Suc idx) xs w1 = (evs1, r1, w2)"
    by (cases "main_loop h cfg n (Suc idx) xs w1") auto
  from Cons.prems x rest have r1: "r1 = None" and w2: "w2 = w0"
    by (auto split: option.splits if_splits)
  from Cons.IH [of "Suc idx" w1 evs1] rest r1 w2
  have app: "main_loop h cfg n (Suc idx) (xs @ ys) w1 =
     (case main_loop h cfg n (Suc idx + length xs) ys w0 of
        (evs', r, w') \<Rightarrow> (evs1 @ evs', r, w'))"
    by simp
  from Cons.prems x rest app show ?case
    by (auto split: option.splits if_splits prod.splits)
qed

section \<open>The claims\<close>




text \<open>
  Claim C2, as the code has it. For every item whose URL is absent, null or empty (false
  for \<^verbatim>\<open>not url\<close>), \<open>download_item\<close> fails with \<open>ValueError\<close> before any plan is built and
  with the world untouched. The loop records the failure as that item's outcome: unless
  \<^verbatim>\<open>stop_on_error\<close> is set it goes on with the items that follow, and when it is set the
  loop returns 1 there.
\<close>

theorem missing_url_per_item:
  assumes "\<not> truthy (get1 it ''url'')"
  shows "download_item h w (PDict it) cfg = (Some ValueError, [], w)
       \<and> (\<not> truthy (get2 cfg ''stop_on_error'' (PBool False)) \<longrightarrow>
            main_loop h cfg n idx (PDict it # rest) w =
              (case main_loop h cfg n (Suc idx) rest w of
                 (evs, r, w') \<Rightarrow> (Processing idx n # Failed idx ValueError # evs, r, w')))
       \<and> (truthy (get2 cfg ''stop_on_error'' (PBool False)) \<longrightarrow>
            main_loop h cfg n idx (PDict it # rest) w =
              ([Processing idx n, Failed idx ValueError], Some 1, w))"
  using download_item_no_url [OF assms, of h w cfg] by simp

theorem missing_url_per_item_witness:
  "\<not> truthy (get1 [(''url'', PStr '''')] ''url'')
 \<and> download_item test_host 0 (PDict [(''url'', PStr '''')]) [] = (Some ValueError, [], 0)
 \<and> \<not> truthy (get2 [] ''stop_on_error'' (PBool False))
 \<and> main_loop test_host [] 2 1 [PDict [(''url'', PStr '''')], PDict [(''url'', PStr ''b'')]] 0
     = ([Processing 1 2, Failed 1 ValueError, Processing 2 2, Start (PStr ''b''), Done],
        None, 1)
 \<and> truthy (get2 [(''stop_on_error'', PBool True)] ''stop_on_error'' (PBool False))
 \<and> main_loop test_host [(''stop_on_error'', PBool True)] 2 1
       [PDict [(''url'', PStr '''')], PDict [(''url'', PStr ''b'')]] 0
     = ([Processing 1 2, Failed 1 ValueError], Some 1, 0)"
proof -
  have url: "\<not> truthy (get1 [(''url'', PStr '''')] ''url'')"
    by code_simp
  have go_on: "\<not> truthy (get2 [] ''stop_on_error'' (PBool False))"
    and stop: "truthy (get2 [(''stop_on_error'', PBool True)] ''stop_on_error'' (PBool False))"
    by code_simp+
  have rest: "main_loop test_host [] 2 (Suc 1) [PDict [(''url'', PStr ''b'')]] 0
     = ([Processing 2 2, Start (PStr ''b''), Done], None, 1)"
    by code_simp
  from missing_url_per_item [OF url, where h = test_host and w = 0 and cfg = "[]"
      and n = 2 and idx = 1 and rest = "[PDict [(''url'', PStr ''b'')]]"]
    missing_url_per_item [OF url, where h = test_host and w = 0
      and cfg = "[(''stop_on_error'', PBool True)]"
      and n = 2 and idx = 1 and rest = "[PDict [(''url'', PStr ''b'')]]"]
    url go_on stop rest
  show ?thesis by simp
qed

text \<open>Claim C2 as stated fails. A batch whose first item has no URL and whose second
  item downloads: the failure is the first item's outcome, the second item is processed,
  and the run ends with exit code 0.\<close>

theorem missing_url_counterexample:
  "main test_host 0
     (Loaded (PDict [(''items'', PList [PDict [(''type'', PStr ''audio'')],
                                        PDict [(''url'', PStr ''b'')]])]))
   = ([Processing 1 2, Failed 1 ValueError, Processing 2 2, Start (PStr ''b''), Done,
       AllFinished], Inr 0, 1)"
  by code_simp



text \<open>
  Claim C4. With \<^verbatim>\<open>stop_on_error\<close> set, the loop returns 1 as soon as an item fails,
  however many items downloaded before it: the log is the log of the items before,
  followed by the failing item's records and its failure record, the outcomes are one
  success per item before and then the failure, the items after it are not processed (the
  result does not depend on them, and the world is as the failing item left it), and
  \<open>main\<close> exits with code 1. For the batch \<open>[A, B]\<close> with \<open>A\<close> failing this is: one outcome,
  the failure of item 1.
\<close>

theorem batch_abort:
  assumes stop: "truthy (get2 cfg ''stop_on_error'' (PBool False))"
    and before: "run_all h cfg pre w = Some w0"
    and fails: "download_item h w0 A cfg = (Some e, evA, w1)"
  shows "main_loop h cfg n idx (pre @ A # rest) w
           = (fst (main_loop h cfg n idx pre w)
                @ Processing (idx + length pre) n # evA @ [Failed (idx + length pre) e],
              Some 1, w1)
       \<and> filter is_outcome
            (fst (main_loop h cfg n idx pre w)
               @ Processing (idx + length pre) n # evA @ [Failed (idx + length pre) e])
           = replicate (length pre) Done @ [Failed (idx + length pre) e]
       \<and> (get1 cfg ''items'' = PList (pre @ A # rest) \<longrightarrow>
            main h w (Loaded (PDict cfg))
              = (fst (main_loop h cfg (length (pre @ A # rest)) 1 pre w)
                   @ Processing (Suc (length pre)) (length (pre @ A # rest)) # evA
                   @ [Failed (Suc (length pre)) e],
                 Inr 1, w1))
       \<and> (pre = [] \<longrightarrow>
            main_loop h cfg n idx (A # rest) w
              = (Processing idx n # evA @ [Failed idx e], Some 1, w1)
            \<and> filter is_outcome (Processing idx n # evA @ [Failed idx e]) = [Failed idx e]
            \<and> (get1 cfg ''items'' = PList (A # rest) \<longrightarrow>
                 main h w (Loaded (PDict cfg))
                   = (Processing 1 (Suc (length rest)) # evA @ [Failed 1 e], Inr 1, w1)))"
proof -
  have loop: "main_loop h cfg m i (pre @ A # rest) w
           = (fst (main_loop h cfg m i pre w)
                @ Processing (i + length pre) m # evA @ [Failed (i + length pre) e],
              Some 1, w1)"
    and outs: "filter is_outcome (fst (main_loop h cfg m i pre w)) = replicate (length pre) Done"
    for m i
  proof -
    from run_all_loop [OF before, of m i] obtain evs where
      pre: "main_loop h cfg m i pre w = (evs, None, w0)"
      and succeeded: "filter is_outcome evs = replicate (length pre) Done"
      by blast
    from main_loop_append [OF pre, of "A # rest"] main_loop_abort [OF stop fails] pre
    show "main_loop h cfg m i (pre @ A # rest) w
           = (fst (main_loop h cfg m i pre w)
                @ Processing (i + length pre) m # evA @ [Failed (i + length pre) e],
              Some 1, w1)"
      by simp
    from pre succeeded
    show "filter is_outcome (fst (main_loop h cfg m i pre w)) = replicate (length pre) Done"
      by simp
  qed
  have evA: "filter is_outcome evA = []"
    using download_item_outcomes [OF fails] by simp
  have whole: "get1 cfg ''items'' = PList (pre @ A # rest) \<longrightarrow>
            main h w (Loaded (PDict cfg))
              = (fst (main_loop h cfg (length (pre @ A # rest)) 1 pre w)
                   @ Processing (Suc (length pre)) (length (pre @ A # rest)) # evA
                   @ [Failed (Suc (length pre)) e],
                 Inr 1, w1)"
  proof
    assume items: "get1 cfg ''items'' = PList (pre @ A # rest)"
    have "main h w (Loaded (PDict cfg)) =
       (case main_loop h cfg (length (pre @ A # rest)) 1 (pre @ A # rest) w of
          (evs, Some r, w') \<Rightarrow> (evs, Inr r, w')
        | (evs, None, w') \<Rightarrow> (evs @ [AllFinished], Inr 0, w'))"
      by (rule main_Loaded_list [OF items]) simp
    then show "main h w (Loaded (PDict cfg))
              = (fst (main_loop h cfg (length (pre @ A # rest)) 1 pre w)
                   @ Processing (Suc (length pre)) (length (pre @ A # rest)) # evA
                   @ [Failed (Suc (length pre)) e],
                 Inr 1, w1)"
      by (simp only: loop [of "length (pre @ A # rest)" 1] prod.case option.case
            plus_1_eq_Suc)
  qed
  from loop [of n idx] outs [of n idx] evA whole show ?thesis
    by auto
qed

theorem batch_abort_witness:
  "truthy (get2 abort_cfg ''stop_on_error'' (PBool False))
 \<and> run_all test_host abort_cfg [] 0 = Some 0
 \<and> download_item test_host 0 (PDict [(''url'', PStr ''bad'')]) abort_cfg
     = (Some (EngineError ''unavailable''), [Start (PStr ''bad'')], 1)
 \<and> get1 abort_cfg ''items''
     = PList [PDict [(''url'', PStr ''bad'')], PDict [(''url'', PStr ''b'')]]
 \<and> main test_host 0 (Loaded (PDict abort_cfg))
     = ([Processing 1 2, Start (PStr ''bad''), Failed 1 (EngineError ''unavailable'')],
        Inr 1, 1)
 \<and> filter is_outcome
       [Processing 1 2, Start (PStr ''bad''), Failed 1 (EngineError ''unavailable'')]
     = [Failed 1 (EngineError ''unavailable'')]
 \<and> truthy (get2 abort_late_cfg ''stop_on_error'' (PBool False))
 \<and> run_all test_host abort_late_cfg [PDict [(''url'', PStr ''a'')]] 0 = Some 1
 \<and> download_item test_host 1 (PDict [(''url'', PStr ''bad'')]) abort_late_cfg
     = (Some (EngineError ''unavailable''), [Start (PStr ''bad'')], 2)
 \<and> get1 abort_late_cfg ''items''
     = PList [PDict [(''url'', PStr ''a'')], PDict [(''url'', PStr ''bad'')],
              PDict [(''url'', PStr ''b'')]]
 \<and> main test_host 0 (Loaded (PDict abort_late_cfg))
     = ([Processing 1 3, Start (PStr ''a''), Done,
         Processing 2 3, Start (PStr ''bad''), Failed 2 (EngineError ''unavailable'')],
        Inr 1, 2)
 \<and> filter is_outcome
       [Processing 1 3, Start (PStr ''a''), Done,
        Processing 2 3, Start (PStr ''bad''), Failed 2 (EngineError ''unavailable'')]
     = [Done, Failed 2 (EngineError ''unavailable'')]"
proof -
  have stop: "truthy (get2 abort_cfg ''stop_on_error'' (PBool False))"
    and before: "run_all test_host abort_cfg [] 0 = Some 0"
    by code_simp+
  have a: "download_item test_host 0 (PDict [(''url'', PStr ''bad'')]) abort_cfg
     = (Some (EngineError ''unavailable''), [Start (PStr ''bad'')], 1)"
    by code_simp
  have items: "get1 abort_cfg ''items''
      = PList [PDict [(''url'', PStr ''bad'')], PDict [(''url'', PStr ''b'')]]"
    by code_simp
  have stop': "truthy (get2 abort_late_cfg ''stop_on_error'' (PBool False))"
    and before': "run_all test_host abort_late_cfg [PDict [(''url'', PStr ''a'')]] 0 = Some 1"
    by code_simp+
  have a': "download_item test_host 1 (PDict [(''url'', PStr ''bad'')]) abort_late_cfg
     = (Some (EngineError ''unavailable''), [Start (PStr ''bad'')], 2)"
    by code_simp
  have items': "get1 abort_late_cfg ''items''
      = PList [PDict [(''url'', PStr ''a'')], PDict [(''url'', PStr ''bad'')],
              PDict [(''url'', PStr ''b'')]]"
    by code_simp
  have log: "fst (main_loop test_host abort_late_cfg 3 1 [PDict [(''url'', PStr ''a'')]] 0)
      = [Processing 1 3, Start (PStr ''a''), Done]"
    by code_simp
  from batch_abort [OF stop before a, where n = 2 and idx = 1
      and rest = "[PDict [(''url'', PStr ''b'')]]"] items
  have first: "main test_host 0 (Loaded (PDict abort_cfg))
     = ([Processing 1 2, Start (PStr ''bad''), Failed 1 (EngineError ''unavailable'')],
        Inr 1, 1)"
    by (simp add: numeral_2_eq_2)
  from batch_abort [OF stop' before' a', where n = 3 and idx = 1
      and rest = "[PDict [(''url'', PStr ''b'')]]"] items' log
  have late: "main test_host 0 (Loaded (PDict abort_late_cfg))
     = ([Processing 1 3, Start (PStr ''a''), Done,
         Processing 2 3, Start (PStr ''bad''), Failed 2 (EngineError ''unavailable'')],
        Inr 1, 2)"
    by (simp add: numeral_2_eq_2 numeral_3_eq_3)
  from stop before a items first stop' before' a' items' late
  show ?thesis by simp
qed

text \<open>
  Claim C5, as the code has it. Whenever the resolved kind is \<^verbatim>\<open>audio\<close> and nothing else
  fails (the output directory is a string and can be made, the filename template is a
  string), \<open>build_ydl_opts\<close> returns an option set whose \<^verbatim>\<open>format\<close> is \<^verbatim>\<open>bestaudio/best\<close>,
  whose \<^verbatim>\<open>postprocessors\<close> is a list of exactly one step, \<^verbatim>\<open>FFmpegExtractAudio\<close>, and which
  has no \<^verbatim>\<open>merge_output_format\<close>. The step's codec is what
  \<^verbatim>\<open>item.get("audio_format", cfg.get("audio_format", "mp3"))\<close> finds and its quality is
  \<^verbatim>\<open>str\<close> of what \<^verbatim>\<open>item.get("audio_bitrate", cfg.get("audio_bitrate", 192))\<close> finds. These
  are the specification's effective audio format and bitrate whenever neither lookup lands
  on an explicit null; with neither scope naming them they are \<^verbatim>\<open>mp3\<close> and \<^verbatim>\<open>"192"\<close>.
\<close>

theorem audio_plan:
  assumes dir: "get2 cfg ''output_dir'' (PStr ''downloads'') = PStr p"
    and made: "make_out_dir h w p = (Inr out_dir, w')"
    and template: "filename_template item cfg = PStr t"
    and kind: "requested_type item = Inr ''audio''"
  shows "\<exists>ydl_opts. build_ydl_opts h w item cfg = (Inr ydl_opts, w')
       \<and> dict_get ydl_opts ''format'' = Some (PStr ''bestaudio/best'')
       \<and> dict_get ydl_opts ''postprocessors'' =
           Some (PList [PDict [(''key'', PStr ''FFmpegExtractAudio''),
                   (''preferredcodec'',
                      get2 item ''audio_format'' (get2 cfg ''audio_format'' (PStr ''mp3''))),
                   (''preferredquality'',
                      PStr (py_str h (get2 item ''audio_bitrate''
                                       (get2 cfg ''audio_bitrate'' (PInt 192)))))]])
       \<and> dict_get ydl_opts ''merge_output_format'' = None
       \<and> (\<not> reads_null item cfg ''audio_format'' \<and> \<not> reads_null item cfg ''audio_bitrate''
            \<longrightarrow> dict_get ydl_opts ''postprocessors'' =
                  Some (PList [PDict [(''key'', PStr ''FFmpegExtractAudio''),
                          (''preferredcodec'',
                             spec_merge item cfg ''audio_format'' (PStr ''mp3'')),
                          (''preferredquality'',
                             PStr (py_str h (spec_merge item cfg ''audio_bitrate''
                                              (PInt 192))))]]))
       \<and> (dict_get item ''audio_format'' = None \<and> dict_get cfg ''audio_format'' = None
            \<and> dict_get item ''audio_bitrate'' = None \<and> dict_get cfg ''audio_bitrate'' = None
            \<longrightarrow> dict_get ydl_opts ''postprocessors'' =
                  Some (PList [PDict [(''key'', PStr ''FFmpegExtractAudio''),
                          (''preferredcodec'', PStr ''mp3''),
                          (''preferredquality'', PStr ''192'')]]))"
proof -
  let ?opts = "sponsorblock item cfg (throttling item cfg
      (format_selection h ''audio'' item cfg (defaults (join_path h out_dir t) item cfg)))"
  have run: "build_ydl_opts h w item cfg = (Inr ?opts, w')"
    by (rule build_ydl_opts_ok [OF dir made template kind])
  have "dict_get ?opts ''format'' = Some (PStr ''bestaudio/best'')"
    by (simp add: dict_get_sponsorblock dict_get_throttling format_selection_audio)
  moreover have steps: "dict_get ?opts ''postprocessors'' =
           Some (PList [PDict [(''key'', PStr ''FFmpegExtractAudio''),
                   (''preferredcodec'',
                      get2 item ''audio_format'' (get2 cfg ''audio_format'' (PStr ''mp3''))),
                   (''preferredquality'',
                      PStr (py_str h (get2 item ''audio_bitrate''
                                       (get2 cfg ''audio_bitrate'' (PInt 192)))))]])"
    by (simp add: dict_get_sponsorblock dict_get_throttling format_selection_audio
          extract_audio_def audio_format_def audio_bitrate_def)
  moreover have "dict_get ?opts ''merge_output_format'' = None"
    by (simp add: dict_get_sponsorblock dict_get_throttling format_selection_audio
          dict_get_defaults_other)
  moreover have "\<not> reads_null item cfg ''audio_format''
       \<and> \<not> reads_null item cfg ''audio_bitrate''
            \<longrightarrow> dict_get ?opts ''postprocessors'' =
                  Some (PList [PDict [(''key'', PStr ''FFmpegExtractAudio''),
                          (''preferredcodec'',
                             spec_merge item cfg ''audio_format'' (PStr ''mp3'')),
                          (''preferredquality'',
                             PStr (py_str h (spec_merge item cfg ''audio_bitrate''
                                              (PInt 192))))]])"
    by (simp add: steps get2_merge)
  moreover have "dict_get item ''audio_format'' = None \<and> dict_get cfg ''audio_format'' = None
            \<and> dict_get item ''audio_bitrate'' = None \<and> dict_get cfg ''audio_bitrate'' = None
            \<longrightarrow> dict_get ?opts ''postprocessors'' =
                  Some (PList [PDict [(''key'', PStr ''FFmpegExtractAudio''),
                          (''preferredcodec'', PStr ''mp3''),
                          (''preferredquality'', PStr ''192'')]])"
    by (simp add: steps get2_def py_str_def str_int_192)
  ultimately show ?thesis using run by blast
qed

theorem audio_plan_witness:
  "get2 [(''audio_format'', PStr ''flac'')] ''output_dir'' (PStr ''downloads'')
     = PStr ''downloads''
 \<and> make_out_dir test_host 0 ''downloads'' = (Inr ''downloads'', 0)
 \<and> filename_template [(''url'', PStr ''u''), (''type'', PStr ''Audio'')]
      [(''audio_format'', PStr ''flac'')] = PStr ''%(title)s.%(ext)s''
 \<and> requested_type [(''url'', PStr ''u''), (''type'', PStr ''Audio'')] = Inr ''audio''
 \<and> \<not> reads_null [(''url'', PStr ''u''), (''type'', PStr ''Audio'')]
        [(''audio_format'', PStr ''flac'')] ''audio_format''
 \<and> \<not> reads_null [(''url'', PStr ''u''), (''type'', PStr ''Audio'')]
        [(''audio_format'', PStr ''flac'')] ''audio_bitrate''
 \<and> build_ydl_opts test_host 0 [(''url'', PStr ''u''), (''type'', PStr ''Audio'')]
      [(''audio_format'', PStr ''flac'')]
     = (Inr [(''outtmpl'', PStr ''downloads/%(title)s.%(ext)s''),
             (''noplaylist'', PBool True), (''quiet'', PBool False),
             (''progress_hooks'', PList [PFunc ''_progress_hook'']),
             (''retries'', PInt 10), (''concurrent_fragment_downloads'', PInt 5),
             (''format'', PStr ''bestaudio/best''),
             (''postprocessors'',
                PList [PDict [(''key'', PStr ''FFmpegExtractAudio''),
                              (''preferredcodec'', PStr ''flac''),
                              (''preferredquality'', PStr ''192'')]])], 0)
 \<and> spec_merge [(''url'', PStr ''u''), (''type'', PStr ''Audio'')]
      [(''audio_format'', PStr ''flac'')] ''audio_format'' (PStr ''mp3'') = PStr ''flac''
 \<and> dict_get [(''url'', PStr ''u''), (''type'', PStr ''Audio'')] ''audio_format'' = None
 \<and> dict_get [] ''audio_format'' = None
 \<and> dict_get [(''url'', PStr ''u''), (''type'', PStr ''Audio'')] ''audio_bitrate'' = None
 \<and> dict_get [] ''audio_bitrate'' = None
 \<and> build_ydl_opts test_host 0 [(''url'', PStr ''u''), (''type'', PStr ''Audio'')] []
     = (Inr [(''outtmpl'', PStr ''downloads/%(title)s.%(ext)s''),
             (''noplaylist'', PBool True), (''quiet'', PBool False),
             (''progress_hooks'', PList [PFunc ''_progress_hook'']),
             (''retries'', PInt 10), (''concurrent_fragment_downloads'', PInt 5),
             (''format'', PStr ''bestaudio/best''),
             (''postprocessors'',
                PList [PDict [(''key'', PStr ''FFmpegExtractAudio''),
                              (''preferredcodec'', PStr ''mp3''),
                              (''preferredquality'', PStr ''192'')]])], 0)"
proof -
  have dir: "get2 [(''audio_format'', PStr ''flac'')] ''output_dir'' (PStr ''downloads'')
     = PStr ''downloads''"
    and dir': "get2 [] ''output_dir'' (PStr ''downloads'') = PStr ''downloads''"
    and made: "make_out_dir test_host 0 ''downloads'' = (Inr ''downloads'', 0)"
    by code_simp+
  have template: "filename_template [(''url'', PStr ''u''), (''type'', PStr ''Audio'')]
      [(''audio_format'', PStr ''flac'')] = PStr ''%(title)s.%(ext)s''"
    and template': "filename_template [(''url'', PStr ''u''), (''type'', PStr ''Audio'')] []
      = PStr ''%(title)s.%(ext)s''"
    and kind: "requested_type [(''url'', PStr ''u''), (''type'', PStr ''Audio'')] = Inr ''audio''"
    by code_simp+
  have no_null:
    "\<not> reads_null [(''url'', PStr ''u''), (''type'', PStr ''Audio'')]
        [(''audio_format'', PStr ''flac'')] ''audio_format''"
    "\<not> reads_null [(''url'', PStr ''u''), (''type'', PStr ''Audio'')]
        [(''audio_format'', PStr ''flac'')] ''audio_bitrate''"
    by code_simp+
  have absent:
    "dict_get [(''url'', PStr ''u''), (''type'', PStr ''Audio'')] ''audio_format'' = None"
    "dict_get [] ''audio_format'' = None"
    "dict_get [(''url'', PStr ''u''), (''type'', PStr ''Audio'')] ''audio_bitrate'' = None"
    "dict_get [] ''audio_bitrate'' = None"
    by code_simp+
  have merged: "spec_merge [(''url'', PStr ''u''), (''type'', PStr ''Audio'')]
      [(''audio_format'', PStr ''flac'')] ''audio_format'' (PStr ''mp3'') = PStr ''flac''"
    by code_simp
  have run: "build_ydl_opts test_host 0 [(''url'', PStr ''u''), (''type'', PStr ''Audio'')]
      [(''audio_format'', PStr ''flac'')]
     = (Inr [(''outtmpl'', PStr ''downloads/%(title)s.%(ext)s''),
             (''noplaylist'', PBool True), (''quiet'', PBool False),
             (''progress_hooks'', PList [PFunc ''_progress_hook'']),
             (''retries'', PInt 10), (''concurrent_fragment_downloads'', PInt 5),
             (''format'', PStr ''bestaudio/best''),
             (''postprocessors'',
                PList [PDict [(''key'', PStr ''FFmpegExtractAudio''),
                              (''preferredcodec'', PStr ''flac''),
                              (''preferredquality'', PStr ''192'')]])], 0)"
    by code_simp
  have run': "build_ydl_opts test_host 0 [(''url'', PStr ''u''), (''type'', PStr ''Audio'')] []
     = (Inr [(''outtmpl'', PStr ''downloads/%(title)s.%(ext)s''),
             (''noplaylist'', PBool True), (''quiet'', PBool False),
             (''progress_hooks'', PList [PFunc ''_progress_hook'']),
             (''retries'', PInt 10), (''concurrent_fragment_downloads'', PInt 5),
             (''format'', PStr ''bestaudio/best''),
             (''postprocessors'',
                PList [PDict [(''key'', PStr ''FFmpegExtractAudio''),
                              (''preferredcodec'', PStr ''mp3''),
                              (''preferredquality'', PStr ''192'')]])], 0)"
    by code_simp
  from audio_plan [OF dir made template kind] audio_plan [OF dir' made template' kind]
    dir made template kind no_null absent merged run run'
  show ?thesis by simp
qed

text \<open>Claim C5 as stated fails. An audio item with \<^verbatim>\<open>"audio_format": null\<close> and
  \<^verbatim>\<open>"audio_bitrate": null\<close> over a global \<^verbatim>\<open>flac\<close> and 320: the effective format and
  bitrate of the specification are \<^verbatim>\<open>flac\<close> and 320, the step of the plan has the codec
  null and the quality \<^verbatim>\<open>"None"\<close>.\<close>

theorem audio_plan_counterexample:
  "build_ydl_opts test_host 0
      [(''url'', PStr ''u''), (''type'', PStr ''audio''), (''audio_format'', PNone),
       (''audio_bitrate'', PNone)]
      [(''audio_format'', PStr ''flac''), (''audio_bitrate'', PInt 320)]
     = (Inr [(''outtmpl'', PStr ''downloads/%(title)s.%(ext)s''),
             (''noplaylist'', PBool True), (''quiet'', PBool False),
             (''progress_hooks'', PList [PFunc ''_progress_hook'']),
             (''retries'', PInt 10), (''concurrent_fragment_downloads'', PInt 5),
             (''format'', PStr ''bestaudio/best''),
             (''postprocessors'',
                PList [PDict [(''key'', PStr ''FFmpegExtractAudio''),
                              (''preferredcodec'', PNone),
                              (''preferredquality'', PStr ''None'')]])], 0)
 \<and> spec_merge
      [(''url'', PStr ''u''), (''type'', PStr ''audio''), (''audio_format'', PNone),
       (''audio_bitrate'', PNone)]
      [(''audio_format'', PStr ''flac''), (''audio_bitrate'', PInt 320)]
      ''audio_format'' (PStr ''mp3'') = PStr ''flac''
 \<and> spec_merge
      [(''url'', PStr ''u''), (''type'', PStr ''audio''), (''audio_format'', PNone),
       (''audio_bitrate'', PNone)]
      [(''audio_format'', PStr ''flac''), (''audio_bitrate'', PInt 320)]
      ''audio_bitrate'' (PInt 192) = PInt 320"
  by code_simp

text \<open>
  Claim C6, as the code has it. The resolved kind is \<^verbatim>\<open>video\<close> when the item has no
  \<^verbatim>\<open>type\<close> or one that is null or otherwise false for \<^verbatim>\<open>or\<close>, and the lower-cased type
  when that is a non-empty string. For such a type, whenever the kind is not \<^verbatim>\<open>audio\<close>
  and nothing else fails (the output directory is a string and can be made, the filename
  template is a string), \<open>build_ydl_opts\<close> returns an option set on the video path: its
  \<^verbatim>\<open>format\<close> is the composite selector or the quality passed through, and its
  \<^verbatim>\<open>merge_output_format\<close> is the merged video format.
\<close>

theorem media_kind_fallback:
  "(dict_get item ''type'' = None \<longrightarrow> requested_type item = Inr ''video'')
 \<and> (\<not> truthy (get1 item ''type'') \<longrightarrow> requested_type item = Inr ''video'')
 \<and> (get1 item ''type'' = PStr s \<and> s \<noteq> [] \<longrightarrow> requested_type item = Inr (py_lower s))
 \<and> (text_or_falsy (get1 item ''type'') \<and> requested_type item \<noteq> Inr ''audio''
      \<and> get2 cfg ''output_dir'' (PStr ''downloads'') = PStr p
      \<and> make_out_dir h w p = (Inr out_dir, w')
      \<and> filename_template item cfg = PStr t \<longrightarrow>
      (\<exists>ydl_opts. build_ydl_opts h w item cfg = (Inr ydl_opts, w')
         \<and> dict_get ydl_opts ''format'' =
             Some (if quality item cfg = PStr ''best'' then PStr ''bv*+ba/b''
                   else quality item cfg)
         \<and> dict_get ydl_opts ''merge_output_format'' = Some (video_format item cfg)))"
proof (intro conjI impI)
  show "requested_type item = Inr ''video''" if "dict_get item ''type'' = None"
    using that by (simp add: requested_type_cases get1_def)
  show "requested_type item = Inr ''video''" if "\<not> truthy (get1 item ''type'')"
    using that by (simp add: requested_type_def py_or_def py_lower_def char_lower_def)
  show "requested_type item = Inr (py_lower s)" if "get1 item ''type'' = PStr s \<and> s \<noteq> []"
    using that by (simp add: requested_type_cases)
  assume a: "text_or_falsy (get1 item ''type'') \<and> requested_type item \<noteq> Inr ''audio''
      \<and> get2 cfg ''output_dir'' (PStr ''downloads'') = PStr p
      \<and> make_out_dir h w p = (Inr out_dir, w')
      \<and> filename_template item cfg = PStr t"
  then obtain rtype where rt: "requested_type item = Inr rtype" and video: "rtype \<noteq> ''audio''"
    by (auto simp: requested_type_cases text_or_falsy_def split: pyval.splits if_splits)
  from a rt have "build_ydl_opts h w item cfg =
     (Inr (sponsorblock item cfg (throttling item cfg
              (format_selection h rtype item cfg (defaults (join_path h out_dir t) item cfg)))),
      w')"
    by (simp add: build_ydl_opts_ok)
  with video show "\<exists>ydl_opts. build_ydl_opts h w item cfg = (Inr ydl_opts, w')
         \<and> dict_get ydl_opts ''format'' =
             Some (if quality item cfg = PStr ''best'' then PStr ''bv*+ba/b''
                   else quality item cfg)
         \<and> dict_get ydl_opts ''merge_output_format'' = Some (video_format item cfg)"
    by (simp add: dict_get_sponsorblock dict_get_throttling format_selection_video_format
          format_selection_video_merge)
qed

theorem media_kind_fallback_witness:
  "dict_get [(''url'', PStr ''u'')] ''type'' = None
 \<and> \<not> truthy (get1 [(''url'', PStr ''u'')] ''type'')
 \<and> requested_type [(''url'', PStr ''u'')] = Inr ''video''
 \<and> get1 [(''url'', PStr ''u''), (''type'', PStr ''Clip'')] ''type'' = PStr ''Clip''
 \<and> requested_type [(''url'', PStr ''u''), (''type'', PStr ''Clip'')] = Inr ''clip''
 \<and> text_or_falsy (get1 [(''url'', PStr ''u''), (''type'', PStr ''Clip'')] ''type'')
 \<and> get2 [] ''output_dir'' (PStr ''downloads'') = PStr ''downloads''
 \<and> make_out_dir test_host 0 ''downloads'' = (Inr ''downloads'', 0)
 \<and> filename_template [(''url'', PStr ''u''), (''type'', PStr ''Clip'')] []
      = PStr ''%(title)s.%(ext)s''
 \<and> build_ydl_opts test_host 0 [(''url'', PStr ''u''), (''type'', PStr ''Clip'')] []
     = (Inr [(''outtmpl'', PStr ''downloads/%(title)s.%(ext)s''),
             (''noplaylist'', PBool True), (''quiet'', PBool False),
             (''progress_hooks'', PList [PFunc ''_progress_hook'']),
             (''retries'', PInt 10), (''concurrent_fragment_downloads'', PInt 5),
             (''format'', PStr ''bv*+ba/b''),
             (''merge_output_format'', PStr ''mp4'')], 0)"
proof -
  have absent: "dict_get [(''url'', PStr ''u'')] ''type'' = None"
    and falsy: "\<not> truthy (get1 [(''url'', PStr ''u'')] ''type'')"
    by code_simp+
  have given: "get1 [(''url'', PStr ''u''), (''type'', PStr ''Clip'')] ''type'' = PStr ''Clip''"
    and lower: "py_lower ''Clip'' = ''clip''"
    and typed: "text_or_falsy (get1 [(''url'', PStr ''u''), (''type'', PStr ''Clip'')] ''type'')"
    by code_simp+
  have dir: "get2 [] ''output_dir'' (PStr ''downloads'') = PStr ''downloads''"
    and made: "make_out_dir test_host 0 ''downloads'' = (Inr ''downloads'', 0)"
    and template: "filename_template [(''url'', PStr ''u''), (''type'', PStr ''Clip'')] []
      = PStr ''%(title)s.%(ext)s''"
    by code_simp+
  have run: "build_ydl_opts test_host 0 [(''url'', PStr ''u''), (''type'', PStr ''Clip'')] []
     = (Inr [(''outtmpl'', PStr ''downloads/%(title)s.%(ext)s''),
             (''noplaylist'', PBool True), (''quiet'', PBool False),
             (''progress_hooks'', PList [PFunc ''_progress_hook'']),
             (''retries'', PInt 10), (''concurrent_fragment_downloads'', PInt 5),
             (''format'', PStr ''bv*+ba/b''),
             (''merge_output_format'', PStr ''mp4'')], 0)"
    by code_simp
  from media_kind_fallback [where item = "[(''url'', PStr ''u'')]" and s = "''Clip''"
      and cfg = "[]" and p = "''downloads''" and h = test_host and w = 0
      and out_dir = "''downloads''" and w' = 0 and t = "''%(title)s.%(ext)s''"]
    media_kind_fallback [where item = "[(''url'', PStr ''u''), (''type'', PStr ''Clip'')]"
      and s = "''Clip''" and cfg = "[]" and p = "''downloads''" and h = test_host and w = 0
      and out_dir = "''downloads''" and w' = 0 and t = "''%(title)s.%(ext)s''"]
    absent falsy given lower typed dir made template run
  show ?thesis by simp
qed

text \<open>Claim C6 as stated fails. An item whose \<^verbatim>\<open>type\<close> is the number 5, a value other
  than \<^verbatim>\<open>video\<close> and \<^verbatim>\<open>audio\<close>: \<^verbatim>\<open>.lower()\<close> raises \<open>AttributeError\<close> and no plan is
  built.\<close>

theorem media_kind_counterexample:
  "build_ydl_opts test_host 0 [(''url'', PStr ''u''), (''type'', PInt 5)] []
     = (Inl AttributeError, 0)"
  by code_simp

text \<open>
  Claim C7, as the code has it. Whenever the resolved kind is not \<^verbatim>\<open>audio\<close> and nothing
  else fails, \<open>build_ydl_opts\<close> returns an option set whose \<^verbatim>\<open>format\<close> is \<^verbatim>\<open>bv*+ba/b\<close> if
  \<^verbatim>\<open>item.get("quality", cfg.get("quality", "best"))\<close> finds the string \<^verbatim>\<open>best\<close>, and the
  value found, whatever it is, otherwise. The value found is the specification's effective
  quality whenever the lookup does not land on an explicit null.
\<close>

theorem video_quality_selector:
  assumes dir: "get2 cfg ''output_dir'' (PStr ''downloads'') = PStr p"
    and made: "make_out_dir h w p = (Inr out_dir, w')"
    and template: "filename_template item cfg = PStr t"
    and kind: "requested_type item = Inr rtype" and video: "rtype \<noteq> ''audio''"
  shows "\<exists>ydl_opts. build_ydl_opts h w item cfg = (Inr ydl_opts, w')
       \<and> dict_get ydl_opts ''format'' =
           Some (if get2 item ''quality'' (get2 cfg ''quality'' (PStr ''best'')) = PStr ''best''
                 then PStr ''bv*+ba/b''
                 else get2 item ''quality'' (get2 cfg ''quality'' (PStr ''best'')))
       \<and> (\<not> reads_null item cfg ''quality'' \<longrightarrow>
            dict_get ydl_opts ''format'' =
              Some (if spec_merge item cfg ''quality'' (PStr ''best'') = PStr ''best''
                    then PStr ''bv*+ba/b''
                    else spec_merge item cfg ''quality'' (PStr ''best'')))"
proof -
  let ?opts = "sponsorblock item cfg (throttling item cfg
      (format_selection h rtype item cfg (defaults (join_path h out_dir t) item cfg)))"
  have run: "build_ydl_opts h w item cfg = (Inr ?opts, w')"
    by (rule build_ydl_opts_ok [OF dir made template kind])
  have selector: "dict_get ?opts ''format'' =
           Some (if get2 item ''quality'' (get2 cfg ''quality'' (PStr ''best'')) = PStr ''best''
                 then PStr ''bv*+ba/b''
                 else get2 item ''quality'' (get2 cfg ''quality'' (PStr ''best'')))"
    using video
    by (simp add: dict_get_sponsorblock dict_get_throttling format_selection_video_format
          quality_def)
  have "\<not> reads_null item cfg ''quality'' \<longrightarrow>
            dict_get ?opts ''format'' =
              Some (if spec_merge item cfg ''quality'' (PStr ''best'') = PStr ''best''
                    then PStr ''bv*+ba/b''
                    else spec_merge item cfg ''quality'' (PStr ''best''))"
    by (simp add: selector get2_merge)
  with run selector show ?thesis by blast
qed

theorem video_quality_selector_witness:
  "get2 [(''quality'', PStr ''bestvideo[height<=720]+bestaudio'')] ''output_dir''
      (PStr ''downloads'') = PStr ''downloads''
 \<and> get2 [(''quality'', PStr ''best'')] ''output_dir'' (PStr ''downloads'') = PStr ''downloads''
 \<and> make_out_dir test_host 0 ''downloads'' = (Inr ''downloads'', 0)
 \<and> filename_template [(''url'', PStr ''u'')]
      [(''quality'', PStr ''bestvideo[height<=720]+bestaudio'')] = PStr ''%(title)s.%(ext)s''
 \<and> filename_template [(''url'', PStr ''u'')] [(''quality'', PStr ''best'')]
      = PStr ''%(title)s.%(ext)s''
 \<and> requested_type [(''url'', PStr ''u'')] = Inr ''video''
 \<and> \<not> reads_null [(''url'', PStr ''u'')]
        [(''quality'', PStr ''bestvideo[height<=720]+bestaudio'')] ''quality''
 \<and> \<not> reads_null [(''url'', PStr ''u'')] [(''quality'', PStr ''best'')] ''quality''
 \<and> spec_merge [(''url'', PStr ''u'')] [(''quality'', PStr ''bestvideo[height<=720]+bestaudio'')]
      ''quality'' (PStr ''best'') = PStr ''bestvideo[height<=720]+bestaudio''
 \<and> spec_merge [(''url'', PStr ''u'')] [(''quality'', PStr ''best'')]
      ''quality'' (PStr ''best'') = PStr ''best''
 \<and> build_ydl_opts test_host 0 [(''url'', PStr ''u'')]
       [(''quality'', PStr ''bestvideo[height<=720]+bestaudio'')]
     = (Inr [(''outtmpl'', PStr ''downloads/%(title)s.%(ext)s''),
             (''noplaylist'', PBool True), (''quiet'', PBool False),
             (''progress_hooks'', PList [PFunc ''_progress_hook'']),
             (''retries'', PInt 10), (''concurrent_fragment_downloads'', PInt 5),
             (''format'', PStr ''bestvideo[height<=720]+bestaudio''),
             (''merge_output_format'', PStr ''mp4'')], 0)
 \<and> build_ydl_opts test_host 0 [(''url'', PStr ''u'')] [(''quality'', PStr ''best'')]
     = (Inr [(''outtmpl'', PStr ''downloads/%(title)s.%(ext)s''),
             (''noplaylist'', PBool True), (''quiet'', PBool False),
             (''progress_hooks'', PList [PFunc ''_progress_hook'']),
             (''retries'', PInt 10), (''concurrent_fragment_downloads'', PInt 5),
             (''format'', PStr ''bv*+ba/b''),
             (''merge_output_format'', PStr ''mp4'')], 0)"
proof -
  have dir: "get2 [(''quality'', PStr ''bestvideo[height<=720]+bestaudio'')] ''output_dir''
      (PStr ''downloads'') = PStr ''downloads''"
    and dir': "get2 [(''quality'', PStr ''best'')] ''output_dir'' (PStr ''downloads'')
      = PStr ''downloads''"
    and made: "make_out_dir test_host 0 ''downloads'' = (Inr ''downloads'', 0)"
    by code_simp+
  have template: "filename_template [(''url'', PStr ''u'')]
      [(''quality'', PStr ''bestvideo[height<=720]+bestaudio'')] = PStr ''%(title)s.%(ext)s''"
    and template': "filename_template [(''url'', PStr ''u'')] [(''quality'', PStr ''best'')]
      = PStr ''%(title)s.%(ext)s''"
    and kind: "requested_type [(''url'', PStr ''u'')] = Inr ''video''"
    and video: "''video'' \<noteq> ''audio''"
    by code_simp+
  have no_null: "\<not> reads_null [(''url'', PStr ''u'')]
        [(''quality'', PStr ''bestvideo[height<=720]+bestaudio'')] ''quality''"
    "\<not> reads_null [(''url'', PStr ''u'')] [(''quality'', PStr ''best'')] ''quality''"
    by code_simp+
  have merged: "spec_merge [(''url'', PStr ''u'')]
      [(''quality'', PStr ''bestvideo[height<=720]+bestaudio'')]
      ''quality'' (PStr ''best'') = PStr ''bestvideo[height<=720]+bestaudio''"
    "spec_merge [(''url'', PStr ''u'')] [(''quality'', PStr ''best'')]
      ''quality'' (PStr ''best'') = PStr ''best''"
    by code_simp+
  have pass: "build_ydl_opts test_host 0 [(''url'', PStr ''u'')]
       [(''quality'', PStr ''bestvideo[height<=720]+bestaudio'')]
     = (Inr [(''outtmpl'', PStr ''downloads/%(title)s.%(ext)s''),
             (''noplaylist'', PBool True), (''quiet'', PBool False),
             (''progress_hooks'', PList [PFunc ''_progress_hook'']),
             (''retries'', PInt 10), (''concurrent_fragment_downloads'', PInt 5),
             (''format'', PStr ''bestvideo[height<=720]+bestaudio''),
             (''merge_output_format'', PStr ''mp4'')], 0)"
    by code_simp
  have best: "build_ydl_opts test_host 0 [(''url'', PStr ''u'')] [(''quality'', PStr ''best'')]
     = (Inr [(''outtmpl'', PStr ''downloads/%(title)s.%(ext)s''),
             (''noplaylist'', PBool True), (''quiet'', PBool False),
             (''progress_hooks'', PList [PFunc ''_progress_hook'']),
             (''retries'', PInt 10), (''concurrent_fragment_downloads'', PInt 5),
             (''format'', PStr ''bv*+ba/b''),
             (''merge_output_format'', PStr ''mp4'')], 0)"
    by code_simp
  from video_quality_selector [OF dir made template kind video]
    video_quality_selector [OF dir' made template' kind video]
    dir dir' made template template' kind no_null merged pass best
  show ?thesis by simp
qed

text \<open>Claim C7 as stated fails. A video item with \<^verbatim>\<open>"quality": null\<close> over a global
  \<^verbatim>\<open>"best"\<close>: the effective quality of the specification is \<^verbatim>\<open>best\<close>, which asks for the
  composite selector; the plan's selector is the null.\<close>

theorem video_quality_selector_counterexample:
  "build_ydl_opts test_host 0 [(''url'', PStr ''u''), (''quality'', PNone)]
      [(''quality'', PStr ''best'')]
     = (Inr [(''outtmpl'', PStr ''downloads/%(title)s.%(ext)s''),
             (''noplaylist'', PBool True), (''quiet'', PBool False),
             (''progress_hooks'', PList [PFunc ''_progress_hook'']),
             (''retries'', PInt 10), (''concurrent_fragment_downloads'', PInt 5),
             (''format'', PNone),
             (''merge_output_format'', PStr ''mp4'')], 0)
 \<and> spec_merge [(''url'', PStr ''u''), (''quality'', PNone)] [(''quality'', PStr ''best'')]
      ''quality'' (PStr ''best'') = PStr ''best''"
  by code_simp

text \<open>
  Claim C8, as the code has it. Whenever nothing fails, \<open>build_ydl_opts\<close> returns an option
  set in which \<^verbatim>\<open>sponsorblock_mark\<close> is the list sponsor, intro, outro, interaction,
  selfpromo if \<^verbatim>\<open>item.get("remove_sponsor_segments", cfg.get("remove_sponsor_segments",
  False))\<close> finds a true value, and which has no \<^verbatim>\<open>sponsorblock_mark\<close> otherwise; no other
  field of the configuration bears on it. This is the specification's effective flag,
  true or false, unless the item holds an explicit null over a true global flag. With
  neither scope naming the flag there is no \<^verbatim>\<open>sponsorblock_mark\<close>.
\<close>

theorem sponsor_categories:
  assumes dir: "get2 cfg ''output_dir'' (PStr ''downloads'') = PStr p"
    and made: "make_out_dir h w p = (Inr out_dir, w')"
    and template: "filename_template item cfg = PStr t"
    and kind: "requested_type item = Inr rtype"
  shows "\<exists>ydl_opts. build_ydl_opts h w item cfg = (Inr ydl_opts, w')
       \<and> dict_get ydl_opts ''sponsorblock_mark'' =
           (if truthy (get2 item ''remove_sponsor_segments''
                        (get2 cfg ''remove_sponsor_segments'' (PBool False)))
            then Some (PList [PStr ''sponsor'', PStr ''intro'', PStr ''outro'',
                              PStr ''interaction'', PStr ''selfpromo''])
            else None)
       \<and> (\<not> (dict_get item ''remove_sponsor_segments'' = Some PNone
               \<and> truthy (get1 cfg ''remove_sponsor_segments'')) \<longrightarrow>
            dict_get ydl_opts ''sponsorblock_mark'' =
              (if truthy (spec_merge item cfg ''remove_sponsor_segments'' (PBool False))
               then Some (PList [PStr ''sponsor'', PStr ''intro'', PStr ''outro'',
                                 PStr ''interaction'', PStr ''selfpromo''])
               else None))
       \<and> (dict_get item ''remove_sponsor_segments'' = None
            \<and> dict_get cfg ''remove_sponsor_segments'' = None \<longrightarrow>
            dict_get ydl_opts ''sponsorblock_mark'' = None)"
proof -
  let ?opts = "sponsorblock item cfg (throttling item cfg
      (format_selection h rtype item cfg (defaults (join_path h out_dir t) item cfg)))"
  have run: "build_ydl_opts h w item cfg = (Inr ?opts, w')"
    by (rule build_ydl_opts_ok [OF dir made template kind])
  have mark: "dict_get ?opts ''sponsorblock_mark'' =
           (if truthy (get2 item ''remove_sponsor_segments''
                        (get2 cfg ''remove_sponsor_segments'' (PBool False)))
            then Some (PList [PStr ''sponsor'', PStr ''intro'', PStr ''outro'',
                              PStr ''interaction'', PStr ''selfpromo''])
            else None)"
    by (simp add: dict_get_sponsorblock dict_get_throttling dict_get_format_selection_other
          dict_get_defaults_other remove_sponsor_segments_def)
  have effective: "\<not> (dict_get item ''remove_sponsor_segments'' = Some PNone
               \<and> truthy (get1 cfg ''remove_sponsor_segments'')) \<longrightarrow>
            dict_get ?opts ''sponsorblock_mark'' =
              (if truthy (spec_merge item cfg ''remove_sponsor_segments'' (PBool False))
               then Some (PList [PStr ''sponsor'', PStr ''intro'', PStr ''outro'',
                                 PStr ''interaction'', PStr ''selfpromo''])
               else None)"
    using flag_merge [of item "''remove_sponsor_segments''" cfg] by (simp add: mark)
  have absent: "dict_get item ''remove_sponsor_segments'' = None
            \<and> dict_get cfg ''remove_sponsor_segments'' = None \<longrightarrow>
            dict_get ?opts ''sponsorblock_mark'' = None"
    by (simp add: mark get2_def)
  from run mark effective absent show ?thesis by blast
qed

theorem sponsor_categories_witness:
  "get2 [(''remove_sponsor_segments'', PBool True), (''rate_limit'', PInt 500000)]
      ''output_dir'' (PStr ''downloads'') = PStr ''downloads''
 \<and> get2 [] ''output_dir'' (PStr ''downloads'') = PStr ''downloads''
 \<and> make_out_dir test_host 0 ''downloads'' = (Inr ''downloads'', 0)
 \<and> filename_template [(''url'', PStr ''u''), (''type'', PStr ''clip'')]
      [(''remove_sponsor_segments'', PBool True), (''rate_limit'', PInt 500000)]
      = PStr ''%(title)s.%(ext)s''
 \<and> filename_template [(''url'', PStr ''u'')] [] = PStr ''%(title)s.%(ext)s''
 \<and> requested_type [(''url'', PStr ''u''), (''type'', PStr ''clip'')] = Inr ''clip''
 \<and> requested_type [(''url'', PStr ''u'')] = Inr ''video''
 \<and> \<not> (dict_get [(''url'', PStr ''u''), (''type'', PStr ''clip'')] ''remove_sponsor_segments''
          = Some PNone
        \<and> truthy (get1 [(''remove_sponsor_segments'', PBool True),
                          (''rate_limit'', PInt 500000)] ''remove_sponsor_segments''))
 \<and> truthy (spec_merge [(''url'', PStr ''u''), (''type'', PStr ''clip'')]
             [(''remove_sponsor_segments'', PBool True), (''rate_limit'', PInt 500000)]
             ''remove_sponsor_segments'' (PBool False))
 \<and> dict_get [(''url'', PStr ''u'')] ''remove_sponsor_segments'' = None
 \<and> dict_get [] ''remove_sponsor_segments'' = None
 \<and> build_ydl_opts test_host 0 [(''url'', PStr ''u''), (''type'', PStr ''clip'')]
       [(''remove_sponsor_segments'', PBool True), (''rate_limit'', PInt 500000)]
     = (Inr [(''outtmpl'', PStr ''downloads/%(title)s.%(ext)s''),
             (''noplaylist'', PBool True), (''quiet'', PBool False),
             (''progress_hooks'', PList [PFunc ''_progress_hook'']),
             (''retries'', PInt 10), (''concurrent_fragment_downloads'', PInt 5),
             (''format'', PStr ''bv*+ba/b''),
             (''merge_output_format'', PStr ''mp4''),
             (''ratelimit'', PInt 500000),
             (''sponsorblock_mark'',
                PList [PStr ''sponsor'', PStr ''intro'', PStr ''outro'',
                       PStr ''interaction'', PStr ''selfpromo''])], 0)
 \<and> build_ydl_opts test_host 0 [(''url'', PStr ''u'')] []
     = (Inr [(''outtmpl'', PStr ''downloads/%(title)s.%(ext)s''),
             (''noplaylist'', PBool True), (''quiet'', PBool False),
             (''progress_hooks'', PList [PFunc ''_progress_hook'']),
             (''retries'', PInt 10), (''concurrent_fragment_downloads'', PInt 5),
             (''format'', PStr ''bv*+ba/b''),
             (''merge_output_format'', PStr ''mp4'')], 0)"
proof -
  have dir: "get2 [(''remove_sponsor_segments'', PBool True), (''rate_limit'', PInt 500000)]
      ''output_dir'' (PStr ''downloads'') = PStr ''downloads''"
    and dir': "get2 [] ''output_dir'' (PStr ''downloads'') = PStr ''downloads''"
    and made: "make_out_dir test_host 0 ''downloads'' = (Inr ''downloads'', 0)"
    by code_simp+
  have template: "filename_template [(''url'', PStr ''u''), (''type'', PStr ''clip'')]
      [(''remove_sponsor_segments'', PBool True), (''rate_limit'', PInt 500000)]
      = PStr ''%(title)s.%(ext)s''"
    and template': "filename_template [(''url'', PStr ''u'')] [] = PStr ''%(title)s.%(ext)s''"
    and kind: "requested_type [(''url'', PStr ''u''), (''type'', PStr ''clip'')] = Inr ''clip''"
    and kind': "requested_type [(''url'', PStr ''u'')] = Inr ''video''"
    by code_simp+
  have flags:
    "\<not> (dict_get [(''url'', PStr ''u''), (''type'', PStr ''clip'')] ''remove_sponsor_segments''
          = Some PNone
        \<and> truthy (get1 [(''remove_sponsor_segments'', PBool True),
                          (''rate_limit'', PInt 500000)] ''remove_sponsor_segments''))"
    "truthy (spec_merge [(''url'', PStr ''u''), (''type'', PStr ''clip'')]
             [(''remove_sponsor_segments'', PBool True), (''rate_limit'', PInt 500000)]
             ''remove_sponsor_segments'' (PBool False))"
    "dict_get [(''url'', PStr ''u'')] ''remove_sponsor_segments'' = None"
    "dict_get [] ''remove_sponsor_segments'' = None"
    by code_simp+
  have on: "build_ydl_opts test_host 0 [(''url'', PStr ''u''), (''type'', PStr ''clip'')]
       [(''remove_sponsor_segments'', PBool True), (''rate_limit'', PInt 500000)]
     = (Inr [(''outtmpl'', PStr ''downloads/%(title)s.%(ext)s''),
             (''noplaylist'', PBool True), (''quiet'', PBool False),
             (''progress_hooks'', PList [PFunc ''_progress_hook'']),
             (''retries'', PInt 10), (''concurrent_fragment_downloads'', PInt 5),
             (''format'', PStr ''bv*+ba/b''),
             (''merge_output_format'', PStr ''mp4''),
             (''ratelimit'', PInt 500000),
             (''sponsorblock_mark'',
                PList [PStr ''sponsor'', PStr ''intro'', PStr ''outro'',
                       PStr ''interaction'', PStr ''selfpromo''])], 0)"
    by code_simp
  have off: "build_ydl_opts test_host 0 [(''url'', PStr ''u'')] []
     = (Inr [(''outtmpl'', PStr ''downloads/%(title)s.%(ext)s''),
             (''noplaylist'', PBool True), (''quiet'', PBool False),
             (''progress_hooks'', PList [PFunc ''_progress_hook'']),
             (''retries'', PInt 10), (''concurrent_fragment_downloads'', PInt 5),
             (''format'', PStr ''bv*+ba/b''),
             (''merge_output_format'', PStr ''mp4'')], 0)"
    by code_simp
  from sponsor_categories [OF dir made template kind]
    sponsor_categories [OF dir' made template' kind']
    dir dir' made template template' kind kind' flags on off
  show ?thesis by simp
qed

text \<open>Claim C8 as stated fails. An item with \<^verbatim>\<open>"remove_sponsor_segments": null\<close> over a
  global \<^verbatim>\<open>true\<close>: the effective flag of the specification is true, the plan has no
  \<^verbatim>\<open>sponsorblock_mark\<close>.\<close>

theorem sponsor_categories_counterexample:
  "build_ydl_opts test_host 0 [(''url'', PStr ''u''), (''remove_sponsor_segments'', PNone)]
      [(''remove_sponsor_segments'', PBool True)]
     = (Inr [(''outtmpl'', PStr ''downloads/%(title)s.%(ext)s''),
             (''noplaylist'', PBool True), (''quiet'', PBool False),
             (''progress_hooks'', PList [PFunc ''_progress_hook'']),
             (''retries'', PInt 10), (''concurrent_fragment_downloads'', PInt 5),
             (''format'', PStr ''bv*+ba/b''),
             (''merge_output_format'', PStr ''mp4'')], 0)
 \<and> dict_get [(''outtmpl'', PStr ''downloads/%(title)s.%(ext)s''),
             (''noplaylist'', PBool True), (''quiet'', PBool False),
             (''progress_hooks'', PList [PFunc ''_progress_hook'']),
             (''retries'', PInt 10), (''concurrent_fragment_downloads'', PInt 5),
             (''format'', PStr ''bv*+ba/b''),
             (''merge_output_format'', PStr ''mp4'')] ''sponsorblock_mark'' = None
 \<and> spec_merge [(''url'', PStr ''u''), (''remove_sponsor_segments'', PNone)]
      [(''remove_sponsor_segments'', PBool True)]
      ''remove_sponsor_segments'' (PBool False) = PBool True"
  by code_simp




text \<open>
  Claim C10. Whenever \<open>build_ydl_opts\<close> returns an option set, for whatever item and
  global configuration, it holds \<^verbatim>\<open>noplaylist\<close> = true and \<^verbatim>\<open>retries\<close> = 10.
\<close>

theorem fixed_engine_options:
  assumes "build_ydl_opts h w item cfg = (Inr ydl_opts, w')"
  shows "dict_get ydl_opts ''noplaylist'' = Some (PBool True)
       \<and> dict_get ydl_opts ''retries'' = Some (PInt 10)"
  using assms
  by (elim build_ydl_opts_Inr)
     (simp add: dict_get_sponsorblock dict_get_throttling dict_get_format_selection_other
                dict_get_defaults_fixed)

theorem fixed_engine_options_witness:
  "build_ydl_opts test_host 0
       [(''url'', PStr ''u''), (''noplaylist'', PBool False), (''retries'', PInt 3)]
       [(''noplaylist'', PBool False), (''retries'', PInt 0)]
     = (Inr [(''outtmpl'', PStr ''downloads/%(title)s.%(ext)s''),
             (''noplaylist'', PBool True), (''quiet'', PBool False),
             (''progress_hooks'', PList [PFunc ''_progress_hook'']),
             (''retries'', PInt 10), (''concurrent_fragment_downloads'', PInt 5),
             (''format'', PStr ''bv*+ba/b''),
             (''merge_output_format'', PStr ''mp4'')], 0)
   \<and> dict_get [(''outtmpl'', PStr ''downloads/%(title)s.%(ext)s''),
             (''noplaylist'', PBool True), (''quiet'', PBool False),
             (''progress_hooks'', PList [PFunc ''_progress_hook'']),
             (''retries'', PInt 10), (''concurrent_fragment_downloads'', PInt 5),
             (''format'', PStr ''bv*+ba/b''),
             (''merge_output_format'', PStr ''mp4'')] ''noplaylist'' = Some (PBool True)
   \<and> dict_get [(''outtmpl'', PStr ''downloads/%(title)s.%(ext)s''),
             (''noplaylist'', PBool True), (''quiet'', PBool False),
             (''progress_hooks'', PList [PFunc ''_progress_hook'']),
             (''retries'', PInt 10), (''concurrent_fragment_downloads'', PInt 5),
             (''format'', PStr ''bv*+ba/b''),
             (''merge_output_format'', PStr ''mp4'')] ''retries'' = Some (PInt 10)"
proof -
  have run: "build_ydl_opts test_host 0
       [(''url'', PStr ''u''), (''noplaylist'', PBool False), (''retries'', PInt 3)]
       [(''noplaylist'', PBool False), (''retries'', PInt 0)]
     = (Inr [(''outtmpl'', PStr ''downloads/%(title)s.%(ext)s''),
             (''noplaylist'', PBool True), (''quiet'', PBool False),
             (''progress_hooks'', PList [PFunc ''_progress_hook'']),
             (''retries'', PInt 10), (''concurrent_fragment_downloads'', PInt 5),
             (''format'', PStr ''bv*+ba/b''),
             (''merge_output_format'', PStr ''mp4'')], 0)"
    by code_simp
  from fixed_engine_options [OF run] run show ?thesis by simp
qed

end
